theory Spec2Isabelle
  imports Complex_Main
begin

section \<open>Data model\<close>

text \<open>
  Coordinates are numpy scalars in the source; following the data model of the
  specification (a point is a real-valued 2D coordinate) they are embedded as exact reals.
  A point and a direction vector are both length-2 arrays, modelled as pairs.
\<close>

type_synonym point = "real \<times> real"

datatype error = ZeroDivisionError | TypeError

text \<open>
  Division is the only arithmetic operation of the source that can fault. HOL's \<open>x / 0\<close>
  is \<open>0\<close>, so the model divides through \<open>divide_chk\<close>, which makes a zero divisor a
  fault value, and threads that value through every caller.
\<close>

definition divide_chk :: "real \<Rightarrow> real \<Rightarrow> error + real" where
  "divide_chk x y = (if y = 0 then Inl ZeroDivisionError else Inr (x / y))"

definition bind_err :: "error + 'a \<Rightarrow> ('a \<Rightarrow> error + 'b) \<Rightarrow> error + 'b" where
  "bind_err m f = (case m of Inl e \<Rightarrow> Inl e | Inr v \<Rightarrow> f v)"

section \<open>Segment intersection test\<close>

text \<open>
  \<open>intersecting\<close> of \<^verbatim>\<open>anchored_path.py\<close>, lines 30-87. The three branches are the
  source's: both segments vertical, exactly one vertical (after which the names are
  exchanged so that line 0 is the vertical one), neither vertical.
\<close>

definition intersecting :: "point \<Rightarrow> point \<Rightarrow> point \<Rightarrow> point \<Rightarrow> error + bool" where
  "intersecting a b c d =
    (let (x0_start, y0_start) = a; (x0_end, y0_end) = b;
         (x1_start, y1_start) = c; (x1_end, y1_end) = d
     in
     if x0_start = x0_end \<and> x1_start = x1_end then
       (if x0_end = x1_start then
          Inr (\<not> (min y0_start y0_end > max y1_start y1_end
                  \<or> min y1_start y1_end > max y0_start y0_end))
        else Inr False)
     else if x0_start = x0_end \<or> x1_start = x1_end then
       (let (x0_start, x0_end, x1_start, x1_end, y0_start, y0_end, y1_start, y1_end) =
              (if x1_start = x1_end
               then (x1_start, x1_end, x0_start, x0_end, y1_start, y1_end, y0_start, y0_end)
               else (x0_start, x0_end, x1_start, x1_end, y0_start, y0_end, y1_start, y1_end))
        in
        bind_err (divide_chk (y1_end - y1_start) (x1_end - x1_start)) (\<lambda>m.
        bind_err (divide_chk (x1_end * y1_start - x1_start * y1_end) (x1_end - x1_start)) (\<lambda>b.
          Inr (min x1_start x1_end \<le> x0_start \<and> x0_start \<le> max x1_start x1_end
               \<and> min y0_start y0_end \<le> m * x0_start + b
               \<and> m * x0_start + b \<le> max y0_start y0_end))))
     else
       bind_err (divide_chk (y0_start * x0_end - y0_end * x0_start) (x0_end - x0_start)) (\<lambda>b0.
       bind_err (divide_chk (y1_start * x1_end - y1_end * x1_start) (x1_end - x1_start)) (\<lambda>b1.
         if (x1_end - x1_start) * (y0_end - y0_start) = (x0_end - x0_start) * (y1_end - y1_start)
         then
           (if b0 = b1 then
              Inr (\<not> (min x0_start x0_end > max x1_start x1_end
                      \<or> min x1_start x1_end > max x0_start x0_end))
            else Inr False)
         else
           bind_err (divide_chk (y0_end - y0_start) (x0_end - x0_start)) (\<lambda>m0.
           bind_err (divide_chk (y1_end - y1_start) (x1_end - x1_start)) (\<lambda>m1.
           bind_err (divide_chk (b1 - b0) (m0 - m1)) (\<lambda>x_intersect.
             Inr (min x0_start x0_end \<le> x_intersect \<and> x_intersect \<le> max x0_start x0_end
                  \<and> min x1_start x1_end \<le> x_intersect
                  \<and> x_intersect \<le> max x1_start x1_end)))))))"

text \<open>
  The geometric reading of the docstring: a point lies on the closed segment from \<open>a\<close> to
  \<open>b\<close> when it is a convex combination of the two end points, and two segments meet when
  they have a point in common.
\<close>

definition on_segment :: "point \<Rightarrow> point \<Rightarrow> point \<Rightarrow> bool" where
  "on_segment a b p =
    (\<exists>t. 0 \<le> t \<and> t \<le> 1 \<and> fst p = fst a + t * (fst b - fst a)
                          \<and> snd p = snd a + t * (snd b - snd a))"

definition segments_meet :: "point \<Rightarrow> point \<Rightarrow> point \<Rightarrow> point \<Rightarrow> bool" where
  "segments_meet a b c d = (\<exists>p. on_segment a b p \<and> on_segment c d p)"


section \<open>Obstruction checker\<close>

text \<open>
  The registry \<^verbatim>\<open>self.design.components\<close> is read only through
  \<^verbatim>\<open>qgeometry_bounds()\<close>, so it is modelled as the list of the bounds
  \<open>(xmin, ymin, xmax, ymax)\<close> of its components, in iteration order. A segment is the
  two-element list \<^verbatim>\<open>[p0, p1]\<close> of the source, modelled as a pair.
\<close>

type_synonym box = "real \<times> real \<times> real \<times> real"
type_synonym segment = "point \<times> point"

text \<open>
  \<^verbatim>\<open>any(intersecting(segment[0], segment[1], k, l) for k, l in [...])\<close>: the generator
  is consumed from the left and stops at the first hit.
\<close>

fun any_intersecting :: "point \<Rightarrow> point \<Rightarrow> segment list \<Rightarrow> error + bool" where
  "any_intersecting s0 s1 [] = Inr False"
| "any_intersecting s0 s1 ((k, l) # rest) =
     bind_err (intersecting s0 s1 k l) (\<lambda>hit.
       if hit then Inr True else any_intersecting s0 s1 rest)"

text \<open>\<open>RouteAnchors.unobstructed\<close>, lines 118-142.\<close>

fun unobstructed :: "box list \<Rightarrow> segment \<Rightarrow> error + bool" where
  "unobstructed [] segment = Inr True"
| "unobstructed ((xmin, ymin, xmax, ymax) # components) segment =
     (let p = (xmin, ymin); q = (xmin, ymax); r = (xmax, ymin); s = (xmax, ymax)
      in bind_err (any_intersecting (fst segment) (snd segment) [(p, q), (p, r), (r, s), (q, s)])
           (\<lambda>hit. if hit then Inr False else unobstructed components segment))"

text \<open>
  The four sides of a bounding box by name, and the four segments that the
  specification's description of the checker lists instead (top edge, bottom edge and
  the two diagonals).
\<close>

definition left_side :: "box \<Rightarrow> segment" where
  "left_side bx = (case bx of (xmin, ymin, xmax, ymax) \<Rightarrow> ((xmin, ymin), (xmin, ymax)))"

definition bottom_side :: "box \<Rightarrow> segment" where
  "bottom_side bx = (case bx of (xmin, ymin, xmax, ymax) \<Rightarrow> ((xmin, ymin), (xmax, ymin)))"

definition right_side :: "box \<Rightarrow> segment" where
  "right_side bx = (case bx of (xmin, ymin, xmax, ymax) \<Rightarrow> ((xmax, ymin), (xmax, ymax)))"

definition top_side :: "box \<Rightarrow> segment" where
  "top_side bx = (case bx of (xmin, ymin, xmax, ymax) \<Rightarrow> ((xmin, ymax), (xmax, ymax)))"

definition rising_diagonal :: "box \<Rightarrow> segment" where
  "rising_diagonal bx = (case bx of (xmin, ymin, xmax, ymax) \<Rightarrow> ((xmin, ymin), (xmax, ymax)))"

definition falling_diagonal :: "box \<Rightarrow> segment" where
  "falling_diagonal bx = (case bx of (xmin, ymin, xmax, ymax) \<Rightarrow> ((xmin, ymax), (xmax, ymin)))"

definition hits :: "segment \<Rightarrow> segment \<Rightarrow> bool" where
  "hits segment edge = (intersecting (fst segment) (snd segment) (fst edge) (snd edge) = Inr True)"

definition side_hit :: "box \<Rightarrow> segment \<Rightarrow> bool" where
  "side_hit bx segment =
     (hits segment (left_side bx) \<or> hits segment (bottom_side bx)
      \<or> hits segment (right_side bx) \<or> hits segment (top_side bx))"

definition described_hit :: "box \<Rightarrow> segment \<Rightarrow> bool" where
  "described_hit bx segment =
     (hits segment (top_side bx) \<or> hits segment (bottom_side bx)
      \<or> hits segment (rising_diagonal bx) \<or> hits segment (falling_diagonal bx))"



section \<open>Leg planner\<close>

text \<open>
  A \<open>QRoutePoint\<close> carries a position and a direction; the direction is \<^verbatim>\<open>None\<close> for an
  anchor. \<^verbatim>\<open>np.dot\<close> of two length-2 arrays and the difference of two arrays are
  \<open>dot\<close> and \<open>sub\<close>.
\<close>

record QRoutePoint =
  position :: point
  direction :: "point option"

definition dot :: "point \<Rightarrow> point \<Rightarrow> real" where
  "dot u v = fst u * fst v + snd u * snd v"

definition sub :: "point \<Rightarrow> point \<Rightarrow> point" where
  "sub u v = (fst u - fst v, snd u - snd v)"

text \<open>
  \<^verbatim>\<open>(end_direction is None) or (test of end_direction)\<close>: the test is evaluated only
  when a direction is present.
\<close>

definition none_or :: "point option \<Rightarrow> (point \<Rightarrow> bool) \<Rightarrow> bool" where
  "none_or end_direction test = (case end_direction of None \<Rightarrow> True | Some ed \<Rightarrow> test ed)"

text \<open>\<^verbatim>\<open>bool(x and y)\<close> on two checker calls: \<open>y\<close> is evaluated only when \<open>x\<close> is true.\<close>

definition and_then :: "error + bool \<Rightarrow> error + bool \<Rightarrow> error + bool" where
  "and_then x y = bind_err x (\<lambda>v. if v then y else Inr False)"

text \<open>
  \<open>RouteAnchors.connect_simple\<close>, lines 144-239. \<open>components\<close> is the registry and
  \<open>avoid_collision\<close> the parsed option. \<^verbatim>\<open>np.dot(None, v)\<close> raises a
  \<^verbatim>\<open>TypeError\<close>; the start direction is first used at line 177 in the collinear
  branch and at line 196 otherwise, which is where the model tests for it. An inner
  \<^verbatim>\<open>if\<close> without \<^verbatim>\<open>else\<close> falls through to the code that follows the whole
  statement: the perfect L stage yields \<open>Some\<close> path when it returns and \<open>None\<close> when it
  falls through; in the later stages the nested tests are conjunctions.
\<close>

definition connect_simple ::
  "box list \<Rightarrow> bool \<Rightarrow> QRoutePoint \<Rightarrow> QRoutePoint \<Rightarrow> error + point list" where
  "connect_simple components avoid_collision start_pt end_pt =
    (let start_direction = direction start_pt; start = position start_pt;
         end_direction = direction end_pt; end' = position end_pt;
         offsetx = \<bar>fst end' - fst start\<bar>; offsety = \<bar>snd end' - snd start\<bar>;
         stop_direction = (if offsetx \<ge> offsety then (fst end' - fst start, 0)
                           else (0, snd end' - snd start))
     in
     if fst start = fst end' \<or> snd start = snd end' then
       (case start_direction of None \<Rightarrow> Inl TypeError | Some sd \<Rightarrow>
          if dot sd (sub end' start) \<ge> 0
             \<and> none_or end_direction (\<lambda>ed. dot (sub end' start) ed \<le> 0)
          then Inr [start, end'] else Inr [])
     else
       (let corner1 = (fst start, snd end'); corner2 = (fst end', snd start) in
        bind_err (if avoid_collision
                  then and_then (unobstructed components (start, corner1))
                                (unobstructed components (corner1, end'))
                  else Inr True) (\<lambda>startc1end.
        bind_err (if avoid_collision
                  then and_then (unobstructed components (start, corner2))
                                (unobstructed components (corner2, end'))
                  else Inr True) (\<lambda>startc2end.
        case start_direction of None \<Rightarrow> Inl TypeError | Some sd \<Rightarrow>
        (case (if dot sd (sub corner1 start) > 0 \<and> startc1end then
                 (if none_or end_direction (\<lambda>ed. dot ed (sub corner1 end') > 0)
                  then Some [start, corner1, end'] else None)
               else if dot sd (sub corner2 start) > 0 \<and> startc2end then
                 (if none_or end_direction (\<lambda>ed. dot ed (sub corner2 end') > 0)
                  then Some [start, corner2, end'] else None)
               else None) of
           Some path \<Rightarrow> Inr path
         | None \<Rightarrow>
           (let (corner3, corner4, corner5, corner6) =
                  (if fst stop_direction \<noteq> 0 then
                     (((fst start + fst end') / 2, snd start),
                      ((fst start + fst end') / 2, snd end'),
                      (fst start, (snd start + snd end') / 2),
                      (fst end', (snd start + snd end') / 2))
                   else
                     ((fst start, (snd start + snd end') / 2),
                      (fst end', (snd start + snd end') / 2),
                      ((fst start + fst end') / 2, snd start),
                      ((fst start + fst end') / 2, snd end')))
            in
            bind_err (if avoid_collision
                      then and_then (unobstructed components (start, corner3))
                             (and_then (unobstructed components (corner3, corner4))
                                       (unobstructed components (corner4, end')))
                      else Inr True) (\<lambda>startc3c4end.
            bind_err (if avoid_collision
                      then and_then (unobstructed components (start, corner5))
                             (and_then (unobstructed components (corner5, corner6))
                                       (unobstructed components (corner6, end')))
                      else Inr True) (\<lambda>startc5c6end.
              if dot sd stop_direction < 0 \<and> dot sd (sub corner3 start) > 0 \<and> startc3c4end
                 \<and> none_or end_direction (\<lambda>ed. dot ed (sub corner4 end') > 0)
              then Inr [start, corner3, corner4, end']
              else if dot sd (sub corner1 start) \<ge> 0 \<and> startc1end
                 \<and> none_or end_direction (\<lambda>ed. dot ed (sub corner1 end') \<ge> 0)
              then Inr [start, corner1, end']
              else if dot sd (sub corner2 start) \<ge> 0 \<and> startc2end
                 \<and> none_or end_direction (\<lambda>ed. dot ed (sub corner2 end') \<ge> 0)
              then Inr [start, corner2, end']
              else if dot sd (sub corner3 start) \<ge> 0 \<and> startc3c4end
                 \<and> none_or end_direction (\<lambda>ed. dot ed (sub corner4 end') \<ge> 0)
              then Inr [start, corner3, corner4, end']
              else if dot sd (sub corner5 start) \<ge> 0 \<and> startc5c6end
                 \<and> none_or end_direction (\<lambda>ed. dot ed (sub corner6 end') \<ge> 0)
              then Inr [start, corner5, corner6, end']
              else Inr []))))))))"


section \<open>Anchored path orchestrator\<close>

text \<open>
  \<open>RouteAnchors.make\<close>, lines 241-273. The state is \<^verbatim>\<open>self.intermediate_pts\<close>, which
  is \<^verbatim>\<open>None\<close> or a list; \<^verbatim>\<open>not self.intermediate_pts\<close> holds for \<^verbatim>\<open>None\<close> and for
  the empty list. Beside the state the model keeps a log with one entry per call of
  \<open>connect_simple\<close>: the two arguments and the list returned. \<^verbatim>\<open>xs[1:]\<close> is \<open>tl xs\<close>,
  also on the empty list.

  The base class \<^verbatim>\<open>QRoute\<close> is not part of the sources at hand. Its method
  \<^verbatim>\<open>get_tip\<close> reads \<^verbatim>\<open>self.intermediate_pts\<close> and the lead-in; it is the parameter
  \<open>tip\<close> of the model, a function of the current state. The lead-in and lead-out
  points returned by \<^verbatim>\<open>set_lead\<close> are parameters as well.
\<close>

type_synonym leg_call = "QRoutePoint \<times> QRoutePoint \<times> point list"

text \<open>
  Modelled from the spec: the constructor \<^verbatim>\<open>QRoutePoint(coord)\<close> of the missing base
  module; an anchor's coordinate is a directed point with no direction constraint.
\<close>

definition anchor_point :: "point \<Rightarrow> QRoutePoint" where
  "anchor_point coord = \<lparr>position = coord, direction = None\<rparr>"

fun make_anchors ::
  "(point list option \<Rightarrow> QRoutePoint) \<Rightarrow> box list \<Rightarrow> bool \<Rightarrow> QRoutePoint \<Rightarrow> point list
    \<Rightarrow> point list option \<times> leg_call list \<Rightarrow> error + (point list option \<times> leg_call list)" where
  "make_anchors tip components avoid_collision meander_start_point [] st = Inr st"
| "make_anchors tip components avoid_collision meander_start_point (coord # rest)
      (intermediate_pts, calls) =
     (case intermediate_pts of
        Some (v # vs) \<Rightarrow>
          bind_err (connect_simple components avoid_collision
                      (tip intermediate_pts) (anchor_point coord)) (\<lambda>leg.
            make_anchors tip components avoid_collision meander_start_point rest
              (Some ((v # vs) @ tl leg),
               calls @ [(tip intermediate_pts, anchor_point coord, leg)]))
      | _ \<Rightarrow>
          bind_err (connect_simple components avoid_collision
                      meander_start_point (anchor_point coord)) (\<lambda>leg.
            make_anchors tip components avoid_collision meander_start_point rest
              (Some (tl leg), calls @ [(meander_start_point, anchor_point coord, leg)])))"

definition make ::
  "(point list option \<Rightarrow> QRoutePoint) \<Rightarrow> box list \<Rightarrow> bool \<Rightarrow> QRoutePoint \<Rightarrow> QRoutePoint
    \<Rightarrow> point list \<Rightarrow> error + (point list \<times> leg_call list)" where
  "make tip components avoid_collision meander_start_point meander_end_point anchors =
     bind_err (make_anchors tip components avoid_collision meander_start_point anchors
                 (None, [])) (\<lambda>(intermediate_pts, calls).
     bind_err (connect_simple components avoid_collision
                 (tip intermediate_pts) meander_end_point) (\<lambda>leg.
       let last_pt = tl leg in
       Inr (case intermediate_pts of
              Some (v # vs) \<Rightarrow> (v # vs) @ last_pt
            | _ \<Rightarrow> last_pt,
            calls @ [(tip intermediate_pts, meander_end_point, leg)])))"

text \<open>
  Modelled from the spec: \<^verbatim>\<open>QRoute.get_tip\<close>, missing from the sources. The tip is the
  most recently placed point of the path under construction together with the direction
  from the previous point to it; it is the lead-in point while nothing has been placed.
\<close>

definition get_tip :: "QRoutePoint \<Rightarrow> point list option \<Rightarrow> QRoutePoint" where
  "get_tip meander_start_point intermediate_pts =
     (case intermediate_pts of
        Some (v # vs) \<Rightarrow>
          (let pts = position meander_start_point # v # vs
           in \<lparr>position = last pts, direction = Some (sub (last pts) (last (butlast pts)))\<rparr>)
      | _ \<Rightarrow> meander_start_point)"

text \<open>
  Modelled from the spec: \<^verbatim>\<open>QRoute.get_points\<close>, missing from the sources. The
  finished path is all accumulated vertices, start through end: the lead-in point
  followed by the points the legs contributed.
\<close>

definition get_points :: "QRoutePoint \<Rightarrow> point list \<Rightarrow> point list" where
  "get_points meander_start_point intermediate_pts =
     position meander_start_point # intermediate_pts"

section \<open>Notions used in the statements\<close>

text \<open>
  What a successful call of the leg planner has returned: a vertex list that is empty, or
  that runs from the start position to the end position.
\<close>

definition leg_ok :: "point \<Rightarrow> point \<Rightarrow> error + point list \<Rightarrow> bool" where
  "leg_ok s e r =
     (\<exists>path. r = Inr path \<and> (path = [] \<or> (2 \<le> length path \<and> hd path = s \<and> last path = e)))"

text \<open>The accumulated points as a list: \<^verbatim>\<open>None\<close> holds no point.\<close>

definition pts_of :: "point list option \<Rightarrow> point list" where
  "pts_of intermediate_pts = (case intermediate_pts of None \<Rightarrow> [] | Some pts \<Rightarrow> pts)"

text \<open>The parts of a log entry.\<close>

definition call_start :: "leg_call \<Rightarrow> QRoutePoint" where
  "call_start c = fst c"

definition call_end :: "leg_call \<Rightarrow> QRoutePoint" where
  "call_end c = fst (snd c)"

definition call_leg :: "leg_call \<Rightarrow> point list" where
  "call_leg c = snd (snd c)"

text \<open>A log entry is genuine when the planner returns its leg on its two arguments.\<close>

definition genuine_call :: "box list \<Rightarrow> bool \<Rightarrow> leg_call \<Rightarrow> bool" where
  "genuine_call components avoid_collision c =
     (connect_simple components avoid_collision (call_start c) (call_end c) = Inr (call_leg c))"

section \<open>Geometry of segments\<close>

text \<open>
  A point of a segment has each coordinate between those of the end points. A vertical
  segment is a range of \<open>y\<close> at one \<open>x\<close>; any other segment is the graph of its line
  over a range of \<open>x\<close>, with the slope and intercept that the source computes.
\<close>

lemma between_convex:
  fixes u v y :: real
  shows "(\<exists>t. 0 \<le> t \<and> t \<le> 1 \<and> y = u + t * (v - u)) \<longleftrightarrow> (min u v \<le> y \<and> y \<le> max u v)"
proof
  assume "\<exists>t. 0 \<le> t \<and> t \<le> 1 \<and> y = u + t * (v - u)"
  then obtain t where t: "0 \<le> t" "t \<le> 1" "y = u + t * (v - u)" by blast
  show "min u v \<le> y \<and> y \<le> max u v"
  proof (cases "u \<le> v")
    case True
    then have "0 \<le> t * (v - u)" "t * (v - u) \<le> v - u"
      using t by (simp_all add: mult_left_le_one_le)
    with True t(3) show ?thesis by linarith
  next
    case False
    then have "0 \<le> t * (u - v)" "t * (u - v) \<le> u - v"
      using t by (simp_all add: mult_left_le_one_le)
    then have "t * (v - u) \<le> 0" "v - u \<le> t * (v - u)"
      by (simp_all add: algebra_simps)
    with False t(3) show ?thesis by linarith
  qed
next
  assume b: "min u v \<le> y \<and> y \<le> max u v"
  show "\<exists>t. 0 \<le> t \<and> t \<le> 1 \<and> y = u + t * (v - u)"
  proof (cases "u = v")
    case True
    with b have "y = u + 0 * (v - u)" by simp
    then show ?thesis by (intro exI[of _ 0]) simp
  next
    case False
    let ?t = "(y - u) / (v - u)"
    have "0 \<le> ?t \<and> ?t \<le> 1"
      using b False by (cases "u < v") (auto simp: min_def max_def field_simps split: if_splits)
    moreover have "y = u + ?t * (v - u)" using False by simp
    ultimately show ?thesis by blast
  qed
qed

lemma on_segment_vertical:
  assumes "fst a = fst b"
  shows "on_segment a b p \<longleftrightarrow>
    fst p = fst a \<and> min (snd a) (snd b) \<le> snd p \<and> snd p \<le> max (snd a) (snd b)"
  using assms between_convex[of "snd p" "snd a" "snd b"]
  by (auto simp: on_segment_def)

lemma line_through:
  fixes ax ay bx by' t :: real
  assumes "ax \<noteq> bx"
  shows "(by' - ay) / (bx - ax) * (ax + t * (bx - ax)) + (ay * bx - by' * ax) / (bx - ax)
         = ay + t * (by' - ay)"
proof -
  have nz: "bx - ax \<noteq> 0" using assms by simp
  have "(by' - ay) / (bx - ax) * (ax + t * (bx - ax)) + (ay * bx - by' * ax) / (bx - ax)
        = ((by' - ay) * (ax + t * (bx - ax)) + (ay * bx - by' * ax)) / (bx - ax)"
    by (simp add: add_divide_distrib)
  also have "(by' - ay) * (ax + t * (bx - ax)) + (ay * bx - by' * ax)
        = (ay + t * (by' - ay)) * (bx - ax)"
    by (simp add: algebra_simps)
  finally show ?thesis using nz by simp
qed

lemma on_segment_sloped:
  assumes "fst a \<noteq> fst b"
  shows "on_segment a b p \<longleftrightarrow>
    min (fst a) (fst b) \<le> fst p \<and> fst p \<le> max (fst a) (fst b) \<and>
    snd p = (snd b - snd a) / (fst b - fst a) * fst p
            + (snd a * fst b - snd b * fst a) / (fst b - fst a)"
proof
  assume "on_segment a b p"
  then obtain t where t: "0 \<le> t" "t \<le> 1" "fst p = fst a + t * (fst b - fst a)"
    "snd p = snd a + t * (snd b - snd a)" by (auto simp: on_segment_def)
  have "min (fst a) (fst b) \<le> fst p \<and> fst p \<le> max (fst a) (fst b)"
    using between_convex[of "fst p" "fst a" "fst b"] t by blast
  moreover have "snd p = (snd b - snd a) / (fst b - fst a) * fst p
            + (snd a * fst b - snd b * fst a) / (fst b - fst a)"
    unfolding t(3) t(4) using line_through[OF assms] by simp
  ultimately show "min (fst a) (fst b) \<le> fst p \<and> fst p \<le> max (fst a) (fst b) \<and>
    snd p = (snd b - snd a) / (fst b - fst a) * fst p
            + (snd a * fst b - snd b * fst a) / (fst b - fst a)" by blast
next
  assume r: "min (fst a) (fst b) \<le> fst p \<and> fst p \<le> max (fst a) (fst b) \<and>
    snd p = (snd b - snd a) / (fst b - fst a) * fst p
            + (snd a * fst b - snd b * fst a) / (fst b - fst a)"
  then obtain t where t: "0 \<le> t" "t \<le> 1" "fst p = fst a + t * (fst b - fst a)"
    using between_convex[of "fst p" "fst a" "fst b"] by blast
  have "snd p = snd a + t * (snd b - snd a)"
    using r line_through[OF assms, of "snd b" "snd a" t] unfolding t(3) by simp
  with t show "on_segment a b p" by (auto simp: on_segment_def)
qed


text \<open>
  When two segments meet, case by case as the source distinguishes them.
\<close>

lemma intervals_overlap:
  fixes u v u' v' :: real
  shows "(\<exists>y. (min u v \<le> y \<and> y \<le> max u v) \<and> (min u' v' \<le> y \<and> y \<le> max u' v'))
         \<longleftrightarrow> \<not> (min u v > max u' v' \<or> min u' v' > max u v)"
proof
  assume "\<exists>y. (min u v \<le> y \<and> y \<le> max u v) \<and> (min u' v' \<le> y \<and> y \<le> max u' v')"
  then show "\<not> (min u v > max u' v' \<or> min u' v' > max u v)" by auto
next
  assume n: "\<not> (min u v > max u' v' \<or> min u' v' > max u v)"
  let ?y = "max (min u v) (min u' v')"
  have "(min u v \<le> ?y \<and> ?y \<le> max u v) \<and> (min u' v' \<le> ?y \<and> ?y \<le> max u' v')"
    using n by auto
  then show "\<exists>y. (min u v \<le> y \<and> y \<le> max u v) \<and> (min u' v' \<le> y \<and> y \<le> max u' v')" ..
qed

lemma segments_meet_commute: "segments_meet a b c d = segments_meet c d a b"
  by (auto simp: segments_meet_def)

lemma meet_vertical_vertical:
  assumes "fst a = fst b" "fst c = fst d"
  shows "segments_meet a b c d \<longleftrightarrow>
    fst b = fst c \<and> \<not> (min (snd a) (snd b) > max (snd c) (snd d)
                      \<or> min (snd c) (snd d) > max (snd a) (snd b))"
proof -
  have "segments_meet a b c d \<longleftrightarrow>
    (\<exists>p. fst p = fst a \<and> fst p = fst c
        \<and> (min (snd a) (snd b) \<le> snd p \<and> snd p \<le> max (snd a) (snd b))
        \<and> (min (snd c) (snd d) \<le> snd p \<and> snd p \<le> max (snd c) (snd d)))"
    unfolding segments_meet_def on_segment_vertical[OF assms(1)] on_segment_vertical[OF assms(2)]
    by blast
  also have "\<dots> \<longleftrightarrow> fst a = fst c \<and>
    (\<exists>y. (min (snd a) (snd b) \<le> y \<and> y \<le> max (snd a) (snd b))
        \<and> (min (snd c) (snd d) \<le> y \<and> y \<le> max (snd c) (snd d)))"
    by auto
  finally show ?thesis
    unfolding intervals_overlap using assms(1) by simp
qed

lemma meet_vertical_sloped:
  assumes "fst a = fst b" "fst c \<noteq> fst d"
  shows "segments_meet a b c d \<longleftrightarrow>
    min (fst c) (fst d) \<le> fst a \<and> fst a \<le> max (fst c) (fst d) \<and>
    min (snd a) (snd b) \<le> (snd d - snd c) / (fst d - fst c) * fst a
                           + (fst d * snd c - fst c * snd d) / (fst d - fst c) \<and>
    (snd d - snd c) / (fst d - fst c) * fst a
        + (fst d * snd c - fst c * snd d) / (fst d - fst c) \<le> max (snd a) (snd b)"
proof -
  have e: "snd c * fst d - snd d * fst c = fst d * snd c - fst c * snd d"
    by (simp add: mult.commute)
  show ?thesis
    unfolding segments_meet_def on_segment_vertical[OF assms(1)] on_segment_sloped[OF assms(2)] e
    by auto
qed

lemma meet_sloped_sloped:
  assumes "fst a \<noteq> fst b" "fst c \<noteq> fst d"
  shows "segments_meet a b c d \<longleftrightarrow>
    (\<exists>x. (min (fst a) (fst b) \<le> x \<and> x \<le> max (fst a) (fst b))
        \<and> (min (fst c) (fst d) \<le> x \<and> x \<le> max (fst c) (fst d))
        \<and> (snd b - snd a) / (fst b - fst a) * x
              + (snd a * fst b - snd b * fst a) / (fst b - fst a)
          = (snd d - snd c) / (fst d - fst c) * x
              + (snd c * fst d - snd d * fst c) / (fst d - fst c))"
  unfolding segments_meet_def on_segment_sloped[OF assms(1)] on_segment_sloped[OF assms(2)]
  by auto


lemma slopes_equal_iff:
  fixes dx0 dy0 dx1 dy1 :: real
  assumes "dx0 \<noteq> 0" "dx1 \<noteq> 0"
  shows "dx1 * dy0 = dx0 * dy1 \<longleftrightarrow> dy0 / dx0 = dy1 / dx1"
  using assms by (auto simp: field_simps)

lemma sloped_parallel:
  fixes m b0 b1 :: real
  shows "(\<exists>x. P x \<and> Q x \<and> m * x + b0 = m * x + b1) \<longleftrightarrow> b0 = b1 \<and> (\<exists>x. P x \<and> Q x)"
  by auto

lemma sloped_crossing:
  fixes m0 m1 b0 b1 :: real
  assumes "m0 \<noteq> m1"
  shows "(\<exists>x. P x \<and> Q x \<and> m0 * x + b0 = m1 * x + b1)
         \<longleftrightarrow> P ((b1 - b0) / (m0 - m1)) \<and> Q ((b1 - b0) / (m0 - m1))"
proof -
  have "m0 * x + b0 = m1 * x + b1 \<longleftrightarrow> x = (b1 - b0) / (m0 - m1)" for x
    using assms by (auto simp: field_simps)
  then show ?thesis by auto
qed

subsection \<open>The test decides whether the segments meet\<close>

text \<open>
  One lemma per branch of the source. In each branch every divisor is non-zero, so the
  checked divisions succeed and the value is the geometric one.
\<close>

lemma intersecting_vertical_vertical:
  assumes "fst a = fst b" "fst c = fst d"
  shows "intersecting a b c d = Inr (segments_meet a b c d)"
  using assms
  by (cases a, cases b, cases c, cases d)
     (simp add: intersecting_def meet_vertical_vertical)

lemma intersecting_vertical_sloped:
  assumes "fst a = fst b" "fst c \<noteq> fst d"
  shows "intersecting a b c d = Inr (segments_meet a b c d)"
  using assms
  by (cases a, cases b, cases c, cases d)
     (simp add: intersecting_def meet_vertical_sloped divide_chk_def bind_err_def)

lemma intersecting_sloped_vertical:
  assumes "fst a \<noteq> fst b" "fst c = fst d"
  shows "intersecting a b c d = Inr (segments_meet a b c d)"
proof -
  note m = meet_vertical_sloped[OF assms(2) assms(1)]
  show ?thesis
    unfolding segments_meet_commute[of a b c d] m using assms
    by (cases a, cases b, cases c, cases d)
       (simp add: intersecting_def divide_chk_def bind_err_def)
qed

lemma intersecting_sloped_sloped:
  assumes "fst a \<noteq> fst b" "fst c \<noteq> fst d"
  shows "intersecting a b c d = Inr (segments_meet a b c d)"
proof (cases "(fst d - fst c) * (snd b - snd a) = (fst b - fst a) * (snd d - snd c)")
  case True
  have nz: "fst b - fst a \<noteq> 0" "fst d - fst c \<noteq> 0" using assms by simp_all
  have s: "(snd b - snd a) / (fst b - fst a) = (snd d - snd c) / (fst d - fst c)"
    using True slopes_equal_iff[OF nz] by blast
  have m: "segments_meet a b c d \<longleftrightarrow>
      (snd a * fst b - snd b * fst a) / (fst b - fst a)
        = (snd c * fst d - snd d * fst c) / (fst d - fst c)
      \<and> \<not> (min (fst a) (fst b) > max (fst c) (fst d)
           \<or> min (fst c) (fst d) > max (fst a) (fst b))"
    unfolding meet_sloped_sloped[OF assms] s sloped_parallel
    using intervals_overlap[of "fst a" "fst b" "fst c" "fst d"] by simp
  show ?thesis
    unfolding m using assms True
    by (cases a, cases b, cases c, cases d)
       (simp add: intersecting_def divide_chk_def bind_err_def)
next
  case False
  have nz: "fst b - fst a \<noteq> 0" "fst d - fst c \<noteq> 0" using assms by simp_all
  have s: "(snd b - snd a) / (fst b - fst a) \<noteq> (snd d - snd c) / (fst d - fst c)"
    using False slopes_equal_iff[OF nz] by blast
  note m = meet_sloped_sloped[OF assms, unfolded sloped_crossing[OF s]]
  show ?thesis
    unfolding m using assms False s
    by (cases a, cases b, cases c, cases d)
       (simp add: intersecting_def divide_chk_def bind_err_def)
qed

lemma intersecting_meet: "intersecting a b c d = Inr (segments_meet a b c d)"
  using intersecting_vertical_vertical intersecting_vertical_sloped
    intersecting_sloped_vertical intersecting_sloped_sloped
  by (cases "fst a = fst b"; cases "fst c = fst d") blast+


subsection \<open>The checker scans the sides of every box\<close>

lemma any_intersecting_Inr:
  "any_intersecting s0 s1 es = Inr (\<exists>e \<in> set es. hits (s0, s1) e)"
  by (induction es) (auto simp: intersecting_meet bind_err_def hits_def)

lemma side_hit_corners:
  "side_hit (xmin, ymin, xmax, ymax) segment \<longleftrightarrow>
     hits segment ((xmin, ymin), (xmin, ymax)) \<or> hits segment ((xmin, ymin), (xmax, ymin))
     \<or> hits segment ((xmax, ymin), (xmax, ymax)) \<or> hits segment ((xmin, ymax), (xmax, ymax))"
  by (simp add: side_hit_def left_side_def bottom_side_def right_side_def top_side_def)

lemma unobstructed_Inr:
  "unobstructed components segment = Inr (list_all (\<lambda>bx. \<not> side_hit bx segment) components)"
proof (induction components)
  case Nil
  show ?case by simp
next
  case (Cons bx components)
  obtain xmin ymin xmax ymax where bx: "bx = (xmin, ymin, xmax, ymax)"
    by (cases bx) auto
  show ?case
    unfolding bx
    by (simp add: Cons.IH any_intersecting_Inr bind_err_def side_hit_corners Let_def)
qed

subsection \<open>The shape of a planned leg\<close>

text \<open>
  Since the checker never faults, the planner's calls of it can be replaced by their
  values; what remains is a tree of tests whose leaves are the returned paths.
\<close>

lemma and_then_Inr: "and_then (Inr x) (Inr y) = Inr (x \<and> y)"
  by (simp add: and_then_def bind_err_def)

lemma bind_err_Inr: "bind_err (Inr v) f = f v"
  by (simp add: bind_err_def)

lemma if_Inr_True: "(if c then Inr x else Inr True) = Inr (c \<longrightarrow> x)"
  by simp

lemmas connect_simple_unfold =
  connect_simple_def [unfolded unobstructed_Inr and_then_Inr if_Inr_True bind_err_Inr]

lemma leg_ok_if: "leg_ok s e x \<Longrightarrow> leg_ok s e y \<Longrightarrow> leg_ok s e (if c then x else y)"
  by simp

lemma leg_ok_case_option:
  "(opt = None \<Longrightarrow> leg_ok s e x) \<Longrightarrow> (\<And>path. opt = Some path \<Longrightarrow> leg_ok s e (f path))
   \<Longrightarrow> leg_ok s e (case opt of None \<Rightarrow> x | Some path \<Rightarrow> f path)"
  by (cases opt) simp_all

lemma leg_ok_case_corners:
  "(\<And>c3 c4 c5 c6. leg_ok s e (f c3 c4 c5 c6))
   \<Longrightarrow> leg_ok s e (case t of (c3, c4, c5, c6) \<Rightarrow> f c3 c4 c5 c6)"
  by (cases t) simp

lemma leg_ok_paths:
  "leg_ok s e (Inr [])" "leg_ok s e (Inr [s, e])" "leg_ok s e (Inr [s, c, e])"
  "leg_ok s e (Inr [s, c, c', e])"
  by (simp_all add: leg_ok_def)

lemma perfect_L_paths:
  assumes "(if c1 then (if e1 then Some [s, k1, e] else None)
            else if c2 then (if e2 then Some [s, k2, e] else None) else None) = Some path"
  shows "leg_ok s e (Inr path)"
  using assms by (auto simp: leg_ok_def split: if_splits)

lemma connect_simple_leg_ok:
  assumes "direction start_pt = Some sd"
  shows "leg_ok (position start_pt) (position end_pt)
           (connect_simple components avoid_collision start_pt end_pt)"
  unfolding connect_simple_unfold Let_def assms option.case
  by (intro leg_ok_if leg_ok_case_option leg_ok_case_corners leg_ok_paths)
     (erule perfect_L_paths)

lemma connect_simple_TypeError:
  assumes "direction start_pt = None"
  shows "connect_simple components avoid_collision start_pt end_pt = Inl TypeError"
  unfolding connect_simple_unfold Let_def assms option.case
  by simp

subsection \<open>The loop over the anchors\<close>

text \<open>
  The invariant of the loop, for any state at its start: each anchor adds one entry to
  the log and the tail of its leg to the accumulated points.
\<close>

lemma make_anchors_log:
  assumes tip: "\<And>st. direction (tip st) \<noteq> None"
    and ms: "direction meander_start_point \<noteq> None"
  shows "\<exists>ipts' new.
      make_anchors tip components avoid_collision meander_start_point anchors (ipts, calls)
        = Inr (ipts', calls @ new)
      \<and> map call_end new = map anchor_point anchors
      \<and> list_all (genuine_call components avoid_collision) new
      \<and> pts_of ipts' = pts_of ipts @ concat (map (\<lambda>c. tl (call_leg c)) new)
      \<and> (pts_of ipts = [] \<and> anchors \<noteq> [] \<longrightarrow> call_start (hd new) = meander_start_point)"
proof (induction anchors arbitrary: ipts calls)
  case Nil
  show ?case by simp
next
  case (Cons coord rest)
  define from_pt where
    "from_pt = (if pts_of ipts = [] then meander_start_point else tip ipts)"
  have "direction from_pt \<noteq> None"
    using tip ms by (simp add: from_pt_def)
  then obtain sd where sd: "direction from_pt = Some sd" by blast
  from connect_simple_leg_ok[OF sd, of "anchor_point coord" components avoid_collision]
  obtain leg where leg:
    "connect_simple components avoid_collision from_pt (anchor_point coord) = Inr leg"
    by (auto simp: leg_ok_def)
  define c where "c = (from_pt, anchor_point coord, leg)"
  have step: "make_anchors tip components avoid_collision meander_start_point
                (coord # rest) (ipts, calls)
      = make_anchors tip components avoid_collision meander_start_point rest
          (Some (pts_of ipts @ tl leg), calls @ [c])"
    using leg
    by (cases ipts; cases "pts_of ipts")
       (auto simp: from_pt_def pts_of_def c_def bind_err_Inr split: list.splits)
  from Cons.IH[of "Some (pts_of ipts @ tl leg)" "calls @ [c]"]
  obtain ipts' new where new:
    "make_anchors tip components avoid_collision meander_start_point rest
        (Some (pts_of ipts @ tl leg), calls @ [c]) = Inr (ipts', (calls @ [c]) @ new)"
    "map call_end new = map anchor_point rest"
    "list_all (genuine_call components avoid_collision) new"
    "pts_of ipts' = pts_of (Some (pts_of ipts @ tl leg)) @ concat (map (\<lambda>c. tl (call_leg c)) new)"
    by blast
  have gc: "genuine_call components avoid_collision c"
    using leg by (simp add: genuine_call_def c_def call_start_def call_end_def call_leg_def)
  have "make_anchors tip components avoid_collision meander_start_point
                (coord # rest) (ipts, calls) = Inr (ipts', calls @ (c # new))"
    using step new(1) by simp
  moreover have "map call_end (c # new) = map anchor_point (coord # rest)"
    using new(2) by (simp add: c_def call_end_def)
  moreover have "list_all (genuine_call components avoid_collision) (c # new)"
    using new(3) gc by simp
  moreover have "pts_of ipts' = pts_of ipts @ concat (map (\<lambda>c. tl (call_leg c)) (c # new))"
    using new(4) by (simp add: pts_of_def c_def call_leg_def)
  moreover have "pts_of ipts = [] \<and> coord # rest \<noteq> [] \<longrightarrow>
      call_start (hd (c # new)) = meander_start_point"
    by (simp add: c_def call_start_def from_pt_def)
  ultimately show ?case by blast
qed

subsection \<open>Segments inside a box\<close>





text \<open>The definitions to unfold when a call is evaluated on numerals.\<close>

lemmas eval_simps = intersecting_def divide_chk_def bind_err_def and_then_def
  connect_simple_def dot_def sub_def none_or_def

section \<open>Properties of the intersection test\<close>





text \<open>
  C9. For all points \<open>a\<close>, \<open>b\<close>, \<open>c\<close>, \<open>d\<close>, \<open>intersecting a b c d\<close> equals
  \<open>intersecting c d a b\<close>.
\<close>

theorem intersecting_symmetric:
  "intersecting a b c d = intersecting c d a b"
  by (simp add: intersecting_meet segments_meet_commute[of a b c d])

section \<open>Properties of the leg planner\<close>

text \<open>
  C1, evaluated at a failing input. With \<open>avoid_collision\<close> set, the start at \<open>(0, 0)\<close>
  heading along \<open>x\<close>, the end at \<open>(5, 0)\<close> and one obstacle with bounds
  \<open>(2, -1, 3, 1)\<close> across the corridor, the branch for a shared coordinate returns the
  direct path without consulting the obstruction checker, although the checker rejects
  that very segment.
\<close>

theorem collinear_leg_ignores_obstacle:
  "connect_simple [(2, - 1, 3, 1)] True \<lparr>position = (0, 0), direction = Some (1, 0)\<rparr>
      \<lparr>position = (5, 0), direction = None\<rparr> = Inr [(0, 0), (5, 0)]
   \<and> unobstructed [(2, - 1, 3, 1)] ((0, 0), (5, 0)) = Inr False"
  by (simp add: eval_simps)

text \<open>
  C2, as amended. For every start and end that share an x or y coordinate, if
  \<open>dot start.direction (end - start) \<ge> 0\<close> (in particular when it is positive) and, when
  the end has a direction, \<open>dot (end - start) end.direction \<le> 0\<close>, then
  \<open>connect_simple\<close> returns the two-point path from start to end. The end direction points
  from the end back towards the route, so the last segment must not be aligned with it.
\<close>

theorem connect_simple_collinear:
  assumes "fst (position start_pt) = fst (position end_pt)
           \<or> snd (position start_pt) = snd (position end_pt)"
    and "direction start_pt = Some sd"
    and "0 \<le> dot sd (sub (position end_pt) (position start_pt))"
    and "\<And>ed. direction end_pt = Some ed
           \<Longrightarrow> dot (sub (position end_pt) (position start_pt)) ed \<le> 0"
  shows "connect_simple components avoid_collision start_pt end_pt
           = Inr [position start_pt, position end_pt]"
proof -
  have "none_or (direction end_pt)
          (\<lambda>ed. dot (sub (position end_pt) (position start_pt)) ed \<le> 0)"
    using assms(4) by (cases "direction end_pt") (simp_all add: none_or_def)
  then show ?thesis
    unfolding connect_simple_def Let_def using assms(1-3) by simp
qed

theorem connect_simple_collinear_witness:
  "snd (position \<lparr>position = (0, 0), direction = Some (1, 0)\<rparr>)
     = snd (position \<lparr>position = (5, 0), direction = Some (- 1, 0)\<rparr>)
   \<and> 0 \<le> dot (1, 0) (sub (5, 0) (0, 0))
   \<and> dot (sub (5, 0) (0, 0)) (- 1, 0) \<le> 0
   \<and> connect_simple [] False \<lparr>position = (0, 0), direction = Some (1, 0)\<rparr>
        \<lparr>position = (5, 0), direction = Some (- 1, 0)\<rparr> = Inr [(0, 0), (5, 0)]"
proof -
  let ?s = "\<lparr>position = (0, 0), direction = Some (1, 0)\<rparr>"
  let ?e = "\<lparr>position = (5, 0), direction = Some (- 1, 0)\<rparr>"
  have "connect_simple [] False ?s ?e = Inr [position ?s, position ?e]"
    by (rule connect_simple_collinear[where sd = "(1, 0)"]) (simp_all add: dot_def sub_def)
  then show ?thesis by (simp add: dot_def sub_def)
qed

text \<open>
  The claim as stated asks for \<open>dot (end - start) end.direction > 0\<close>. At the start
  \<open>(0, 0)\<close> and the end \<open>(5, 0)\<close>, both with direction \<open>(1, 0)\<close>, both products are
  positive and the planner returns the empty list.
\<close>

theorem strict_end_alignment_counterexample:
  "snd (0 :: real, 0 :: real) = snd (5 :: real, 0 :: real)
   \<and> 0 < dot (1, 0) (sub (5, 0) (0, 0))
   \<and> 0 < dot (sub (5, 0) (0, 0)) (1, 0)
   \<and> connect_simple [] False \<lparr>position = (0, 0), direction = Some (1, 0)\<rparr>
        \<lparr>position = (5, 0), direction = Some (1, 0)\<rparr> = Inr []"
  by (simp add: eval_simps)

text \<open>
  C3, evaluated at a failing input. Start \<open>(0, 0)\<close> with direction \<open>(1, 1)\<close>, end
  \<open>(5, 5)\<close> with direction \<open>(0, -1)\<close>, no collision avoidance. The start test of corner1
  \<open>= (0, 5)\<close> passes strictly and its end test fails (the product is zero), so the perfect
  L via corner1 does not succeed; every condition of the perfect L via corner2
  \<open>= (5, 0)\<close> holds. The \<^verbatim>\<open>elif\<close> at line 199 is skipped because the \<^verbatim>\<open>if\<close> at line
  196 was taken, and the relaxed pass returns the path through corner1.
\<close>

theorem perfect_corner2_skipped:
  "connect_simple [] False \<lparr>position = (0, 0), direction = Some (1, 1)\<rparr>
      \<lparr>position = (5, 5), direction = Some (0, - 1)\<rparr> = Inr [(0, 0), (0, 5), (5, 5)]
   \<and> 0 < dot (1, 1) (sub (0, 5) (0, 0))
   \<and> \<not> 0 < dot (0, - 1) (sub (0, 5) (5, 5))
   \<and> 0 < dot (1, 1) (sub (5, 0) (0, 0))
   \<and> 0 < dot (0, - 1) (sub (5, 0) (5, 5))"
  by (simp add: eval_simps)

text \<open>
  C7. For every pair of directed points, whenever \<open>connect_simple\<close> returns a non-empty
  vertex list, its first element is the start position and its last element is the end
  position.
\<close>

theorem connect_simple_endpoints:
  assumes "connect_simple components avoid_collision start_pt end_pt = Inr (v # vs)"
  shows "v = position start_pt \<and> last (v # vs) = position end_pt"
proof (cases "direction start_pt")
  case None
  from connect_simple_TypeError[OF None] assms show ?thesis by simp
next
  case (Some sd)
  from connect_simple_leg_ok[OF Some, of end_pt components avoid_collision] assms
  show ?thesis by (auto simp: leg_ok_def)
qed

theorem connect_simple_endpoints_witness:
  "connect_simple [] False \<lparr>position = (0, 0), direction = Some (1, 0)\<rparr>
       \<lparr>position = (5, 5), direction = Some (0, - 1)\<rparr> = Inr [(0, 0), (5, 0), (5, 5)]
   \<and> (0, 0) = position \<lparr>position = (0, 0), direction = Some (1, 0)\<rparr>
   \<and> last [(0 :: real, 0 :: real), (5, 0), (5, 5)]
       = position \<lparr>position = (5, 5), direction = Some (0, - 1)\<rparr>"
proof -
  have r: "connect_simple [] False \<lparr>position = (0, 0), direction = Some (1, 0)\<rparr>
       \<lparr>position = (5, 5), direction = Some (0, - 1)\<rparr> = Inr [(0, 0), (5, 0), (5, 5)]"
    by (simp add: connect_simple_def dot_def sub_def none_or_def bind_err_def)
  from connect_simple_endpoints[OF r] r show ?thesis by simp
qed


section \<open>Properties of the obstruction checker\<close>

text \<open>
  C4, as amended. For every segment and every registry, \<open>unobstructed\<close> returns false
  exactly when the bounding box of some registered obstacle has one of its four sides
  (left, bottom, right, top) intersecting the segment according to \<open>intersecting\<close>, and
  true otherwise. The diagonals are not tested.
\<close>

theorem unobstructed_iff_no_side_hit:
  "unobstructed components segment = Inr (\<not> (\<exists>bx \<in> set components. side_hit bx segment))"
  by (simp add: unobstructed_Inr list_all_iff)

theorem unobstructed_iff_no_side_hit_witness:
  "(\<exists>bx \<in> set [(0, 0, 2, 2)]. side_hit bx ((- 1, 1), (0, 1)))
   \<and> unobstructed [(0, 0, 2, 2)] ((- 1, 1), (0, 1)) = Inr False"
proof -
  have "unobstructed [(0, 0, 2, 2)] ((- 1, 1), (0, 1)) = Inr False"
    by (simp add: eval_simps)
  with unobstructed_iff_no_side_hit[of "[(0, 0, 2, 2)]" "((- 1, 1), (0, 1))"]
  show ?thesis by simp
qed

text \<open>
  The four segments of the description (top, bottom and the two diagonals) decide
  differently in both directions: a segment that touches only the left side is
  obstructed although none of the described segments meets it, and a segment inside the
  box is unobstructed although it crosses a diagonal.
\<close>

theorem described_segments_counterexample:
  "unobstructed [(0, 0, 2, 2)] ((- 1, 1), (0, 1)) = Inr False
   \<and> \<not> described_hit (0, 0, 2, 2) ((- 1, 1), (0, 1))
   \<and> unobstructed [(0, 0, 4, 4)] ((1, 2), (3, 2)) = Inr True
   \<and> described_hit (0, 0, 4, 4) ((1, 2), (3, 2))"
  by (simp add: eval_simps described_hit_def hits_def top_side_def bottom_side_def
      rising_diagonal_def falling_diagonal_def)




section \<open>Properties of the orchestrator\<close>

text \<open>
  C6, as amended. Provided every start point handed to the planner carries a direction
  and the tip of the untouched route is the lead-in point, \<open>make\<close> on \<open>N\<close> anchors
  returns after exactly \<open>N + 1\<close> calls of \<open>connect_simple\<close>: one per anchor in the
  supplied order, the first from the lead-in point, and a last one to the lead-out
  point. The accumulated points are the concatenation of the legs with the first vertex
  of each dropped, so the finished path (the lead-in point followed by the accumulated
  points) has one vertex more than the sum of the contributions of the legs; its first
  vertex is the overall start, and its last vertex is the overall end whenever the last
  leg is not empty.
\<close>

theorem make_legs:
  assumes tip: "\<And>st. direction (tip st) \<noteq> None"
    and start: "tip None = meander_start_point"
  shows "\<exists>pts calls.
      make tip components avoid_collision meander_start_point meander_end_point anchors
        = Inr (pts, calls)
      \<and> length calls = length anchors + 1
      \<and> map call_end calls = map anchor_point anchors @ [meander_end_point]
      \<and> call_start (hd calls) = meander_start_point
      \<and> list_all (genuine_call components avoid_collision) calls
      \<and> pts = concat (map (\<lambda>c. tl (call_leg c)) calls)
      \<and> length (get_points meander_start_point pts)
          = 1 + sum_list (map (\<lambda>c. length (tl (call_leg c))) calls)
      \<and> hd (get_points meander_start_point pts) = position meander_start_point
      \<and> (call_leg (last calls) \<noteq> []
           \<longrightarrow> last (get_points meander_start_point pts) = position meander_end_point)"
proof -
  have ms: "direction meander_start_point \<noteq> None"
    using tip[of None] start by simp
  from make_anchors_log[of tip meander_start_point components avoid_collision anchors None "[]",
      OF tip ms]
  obtain ipts new where new:
    "make_anchors tip components avoid_collision meander_start_point anchors (None, [])
       = Inr (ipts, new)"
    "map call_end new = map anchor_point anchors"
    "list_all (genuine_call components avoid_collision) new"
    "pts_of ipts = concat (map (\<lambda>c. tl (call_leg c)) new)"
    "anchors \<noteq> [] \<longrightarrow> call_start (hd new) = meander_start_point"
    by (auto simp: pts_of_def)
  obtain sd where sd: "direction (tip ipts) = Some sd"
    using tip[of ipts] by blast
  from connect_simple_leg_ok[OF sd, of meander_end_point components avoid_collision]
  obtain leg where leg:
    "connect_simple components avoid_collision (tip ipts) meander_end_point = Inr leg"
    "leg = [] \<or> (2 \<le> length leg \<and> last leg = position meander_end_point)"
    by (auto simp: leg_ok_def)
  define c where "c = (tip ipts, meander_end_point, leg)"
  define pts where "pts = pts_of ipts @ tl leg"
  have run: "make tip components avoid_collision meander_start_point meander_end_point anchors
      = Inr (pts, new @ [c])"
    unfolding make_def new(1) bind_err_Inr prod.case leg(1) Let_def pts_def c_def
    by (simp add: pts_of_def split: option.split list.split)
  have len: "length new = length anchors"
    using new(2) by (metis length_map)
  have "length (new @ [c]) = length anchors + 1"
    using len by simp
  moreover have "map call_end (new @ [c]) = map anchor_point anchors @ [meander_end_point]"
    using new(2) by (simp add: c_def call_end_def)
  moreover have "call_start (hd (new @ [c])) = meander_start_point"
  proof (cases anchors)
    case Nil
    with new(1) have "ipts = None" by simp
    with Nil len show ?thesis by (simp add: c_def call_start_def start)
  next
    case (Cons coord rest)
    with len have "new \<noteq> []" by auto
    with new(5) Cons show ?thesis by simp
  qed
  moreover have "list_all (genuine_call components avoid_collision) (new @ [c])"
    using new(3) leg(1)
    by (simp add: genuine_call_def c_def call_start_def call_end_def call_leg_def)
  moreover have cat: "pts = concat (map (\<lambda>c. tl (call_leg c)) (new @ [c]))"
    using new(4) by (simp add: pts_def c_def call_leg_def)
  moreover have "length (get_points meander_start_point pts)
          = 1 + sum_list (map (\<lambda>c. length (tl (call_leg c))) (new @ [c]))"
    unfolding cat get_points_def by (simp add: length_concat comp_def)
  moreover have "hd (get_points meander_start_point pts) = position meander_start_point"
    by (simp add: get_points_def)
  moreover have "call_leg (last (new @ [c])) \<noteq> []
           \<longrightarrow> last (get_points meander_start_point pts) = position meander_end_point"
  proof
    assume "call_leg (last (new @ [c])) \<noteq> []"
    then have ne: "leg \<noteq> []" by (simp add: c_def call_leg_def)
    with leg(2) have l: "2 \<le> length leg" "last leg = position meander_end_point" by auto
    then have "tl leg \<noteq> []" by (cases leg) auto
    then have "last (get_points meander_start_point pts) = last (tl leg)"
      by (simp add: get_points_def pts_def)
    also have "\<dots> = last leg" using \<open>tl leg \<noteq> []\<close> by (simp add: last_tl)
    finally show "last (get_points meander_start_point pts) = position meander_end_point"
      using l(2) by simp
  qed
  ultimately show ?thesis using run by blast
qed

theorem make_legs_witness:
  "(\<forall>st. direction (get_tip \<lparr>position = (0, 0), direction = Some (1, 0)\<rparr> st) \<noteq> None)
   \<and> get_tip \<lparr>position = (0, 0), direction = Some (1, 0)\<rparr> None
       = \<lparr>position = (0, 0), direction = Some (1, 0)\<rparr>
   \<and> (\<exists>pts calls.
        make (get_tip \<lparr>position = (0, 0), direction = Some (1, 0)\<rparr>) [] False
          \<lparr>position = (0, 0), direction = Some (1, 0)\<rparr>
          \<lparr>position = (9, 5), direction = Some (- 1, 0)\<rparr> [(5, 0), (5, 5)] = Inr (pts, calls)
        \<and> length calls = 3
        \<and> pts = concat (map (\<lambda>c. tl (call_leg c)) calls)
        \<and> pts = [(5, 0), (5, 5), (9, 5)])"
proof -
  let ?ms = "\<lparr>position = (0, 0), direction = Some (1, 0)\<rparr>"
  let ?me = "\<lparr>position = (9, 5), direction = Some (- 1, 0)\<rparr>"
  have tip: "\<And>st. direction (get_tip ?ms st) \<noteq> None"
    by (simp add: get_tip_def split: option.split list.split)
  have start: "get_tip ?ms None = ?ms"
    by (simp add: get_tip_def)
  have run: "fst (projr (make (get_tip ?ms) [] False ?ms ?me [(5, 0), (5, 5)]))
      = [(5, 0), (5, 5), (9, 5)]"
    by (simp add: eval_simps make_def get_tip_def anchor_point_def)
  from make_legs[of "get_tip ?ms" ?ms "[]" False ?me "[(5, 0), (5, 5)]", OF tip start] run
  have "\<exists>pts calls.
        make (get_tip ?ms) [] False ?ms ?me [(5, 0), (5, 5)] = Inr (pts, calls)
        \<and> length calls = 3
        \<and> pts = concat (map (\<lambda>c. tl (call_leg c)) calls)
        \<and> pts = [(5, 0), (5, 5), (9, 5)]"
    by auto
  with tip start show ?thesis by blast
qed

text \<open>
  As stated, the claim promises that the path ends at the overall end. With no anchor, a
  lead-in at \<open>(0, 0)\<close> heading away from the lead-out at \<open>(5, 0)\<close>, the single leg is
  empty and nothing is appended. Moreover the concatenation of the legs without their
  first vertices does not itself begin at the overall start, as the route through the
  anchors \<open>(5, 0)\<close> and \<open>(5, 5)\<close> shows: the start belongs to the path apart from them.
\<close>

theorem empty_final_leg_counterexample:
  "make (get_tip \<lparr>position = (0, 0), direction = Some (- 1, 0)\<rparr>) [] False
      \<lparr>position = (0, 0), direction = Some (- 1, 0)\<rparr>
      \<lparr>position = (5, 0), direction = None\<rparr> []
     = Inr ([], [(\<lparr>position = (0, 0), direction = Some (- 1, 0)\<rparr>,
                  \<lparr>position = (5, 0), direction = None\<rparr>, [])])
   \<and> last (get_points \<lparr>position = (0, 0), direction = Some (- 1, 0)\<rparr> [])
       \<noteq> position \<lparr>position = (5, 0), direction = None\<rparr>
   \<and> fst (projr (make (get_tip \<lparr>position = (0, 0), direction = Some (1, 0)\<rparr>) [] False
         \<lparr>position = (0, 0), direction = Some (1, 0)\<rparr>
         \<lparr>position = (9, 5), direction = Some (- 1, 0)\<rparr> [(5, 0), (5, 5)]))
       = [(5, 0), (5, 5), (9, 5)]
   \<and> hd [(5 :: real, 0 :: real), (5, 5), (9, 5)]
       \<noteq> position \<lparr>position = (0, 0), direction = Some (1, 0)\<rparr>"
  by (simp add: eval_simps make_def get_tip_def get_points_def anchor_point_def)

end
